theory Spec2Isabelle
  imports Complex_Main "HOL-Library.Log_Nat"
begin

section \<open>Python values used by the record store\<close>

text \<open>
  Strings are ASCII character lists. Exceptions are values: every function of the source
  that can raise returns \<open>exn + 'a\<close>, with \<open>Inl\<close> carrying the exception.
  \<open>HttpError status content\<close> is googleapiclient's error with \<open>e.resp.status\<close>;
  \<open>Exception msg\<close> stands for any exception that is not an \<open>HttpError\<close>.
\<close>

datatype exn = ValueError string | IndexError | HttpError int string | Exception string

definition digits :: string where
  "digits = ''0123456789''"

definition nonzero_digits :: string where
  "nonzero_digits = ''123456789''"

definition letters :: string where
  "letters = ''abcdefghijklmnopqrstuvwxyzABCDEFGHIJKLMNOPQRSTUVWXYZ''"

definition is_digit :: "char \<Rightarrow> bool" where
  "is_digit c = (c \<in> set digits)"

definition digit_val :: "char \<Rightarrow> nat" where
  "digit_val c = of_char c - 48"

definition digit_char :: "nat \<Rightarrow> char" where
  "digit_char d = char_of (48 + d)"

text \<open>\<open>str.isdigit()\<close>: non-empty and every character a digit.\<close>

definition isdigit :: "string \<Rightarrow> bool" where
  "isdigit s = (s \<noteq> [] \<and> list_all is_digit s)"

text \<open>\<open>int(s)\<close> on a string of digits.\<close>

definition int_of_digits :: "string \<Rightarrow> int" where
  "int_of_digits s = int (foldl (\<lambda>a c. 10 * a + digit_val c) 0 s)"

text \<open>\<open>str(n)\<close> for an integer: decimal digits, with a minus sign when negative.\<close>

fun str_nat :: "nat \<Rightarrow> string" where
  "str_nat n = (if n < 10 then [digit_char n] else str_nat (n div 10) @ [digit_char (n mod 10)])"

declare str_nat.simps [simp del]

definition str_int :: "int \<Rightarrow> string" where
  "str_int i = (if i < 0 then CHR ''-'' # str_nat (nat (- i)) else str_nat (nat i))"

definition str_bool :: "bool \<Rightarrow> string" where
  "str_bool b = (if b then ''True'' else ''False'')"

definition lower_char :: "char \<Rightarrow> char" where
  "lower_char c = (if c \<in> set ''ABCDEFGHIJKLMNOPQRSTUVWXYZ'' then char_of (of_char c + (32::nat)) else c)"

definition lower :: "string \<Rightarrow> string" where
  "lower s = map lower_char s"

text \<open>\<open>x or ""\<close> for an optional string, and \<open>cell if cell else None\<close> for a cell.\<close>

definition or_empty :: "string option \<Rightarrow> string" where
  "or_empty x = (case x of None \<Rightarrow> [] | Some s \<Rightarrow> s)"

definition cell_or_None :: "string \<Rightarrow> string option" where
  "cell_or_None c = (if c = [] then None else Some c)"

text \<open>\<open>cell or default\<close>.\<close>

definition or_default :: "string \<Rightarrow> string \<Rightarrow> string" where
  "or_default c d = (if c = [] then d else c)"

text \<open>Truthiness of an optional string: \<open>None\<close> and \<open>""\<close> are false.\<close>

definition truthy :: "string option \<Rightarrow> bool" where
  "truthy x = (case x of None \<Rightarrow> False | Some s \<Rightarrow> s \<noteq> [])"

subsection \<open>\<open>datetime.strptime\<close>\<close>

text \<open>
  \<open>strptime\<close> compiles the format into a regular expression, matches it at the start of
  the string with backtracking over the ordered alternatives of each directive, and raises
  \<open>ValueError\<close> when nothing matches or when the first match leaves unconverted data.
  A matcher returns its matches in the order the regex engine tries them, each with the
  rest of the string. The directives are
  \<open>%H = 2[0-3]|[0-1]\d|\d\<close>, \<open>%M = [0-5]\d|\d\<close>, \<open>%Y = \d\d\d\d\<close>,
  \<open>%m = 1[0-2]|0[1-9]|[1-9]\<close> and \<open>%d = 3[0-1]|[1-2]\d|0[1-9]|[1-9]| [1-9]\<close>.
\<close>

definition re_class :: "string \<Rightarrow> string \<Rightarrow> (nat \<times> string) list" where
  "re_class cls s = (case s of [] \<Rightarrow> [] | c # cs \<Rightarrow> if c \<in> set cls then [(digit_val c, cs)] else [])"

definition re_two :: "string \<Rightarrow> string \<Rightarrow> string \<Rightarrow> (nat \<times> string) list" where
  "re_two cls1 cls2 s = [(10 * a + b, r2). (a, r1) \<leftarrow> re_class cls1 s, (b, r2) \<leftarrow> re_class cls2 r1]"

definition re_lit :: "char \<Rightarrow> string \<Rightarrow> string list" where
  "re_lit c s = (case s of [] \<Rightarrow> [] | c' # cs \<Rightarrow> if c' = c then [cs] else [])"

definition alts_H :: "string \<Rightarrow> (nat \<times> string) list" where
  "alts_H s = re_two ''2'' ''0123'' s @ re_two ''01'' digits s @ re_class digits s"

definition alts_M :: "string \<Rightarrow> (nat \<times> string) list" where
  "alts_M s = re_two ''012345'' digits s @ re_class digits s"

definition alts_Y :: "string \<Rightarrow> (nat \<times> string) list" where
  "alts_Y s = [(100 * a + b, r2). (a, r1) \<leftarrow> re_two digits digits s, (b, r2) \<leftarrow> re_two digits digits r1]"

definition alts_m :: "string \<Rightarrow> (nat \<times> string) list" where
  "alts_m s = re_two ''1'' ''012'' s @ re_two ''0'' nonzero_digits s @ re_class nonzero_digits s"

definition alts_d :: "string \<Rightarrow> (nat \<times> string) list" where
  "alts_d s = re_two ''3'' ''01'' s @ re_two ''12'' digits s @ re_two ''0'' nonzero_digits s
     @ re_class nonzero_digits s @ [(d, r2). r1 \<leftarrow> re_lit CHR '' '' s, (d, r2) \<leftarrow> re_class nonzero_digits r1]"

text \<open>\<open>strptime(s, "%H:%M")\<close>: the hour and minute of the resulting datetime.\<close>

definition strptime_HM :: "string \<Rightarrow> exn + (nat \<times> nat)" where
  "strptime_HM s =
     (case [(h, m, r). (h, r1) \<leftarrow> alts_H s, r2 \<leftarrow> re_lit CHR '':'' r1, (m, r) \<leftarrow> alts_M r2] of
        [] \<Rightarrow> Inl (ValueError ''time data does not match format'')
      | (h, m, r) # _ \<Rightarrow>
          if r \<noteq> [] then Inl (ValueError ''unconverted data remains'') else Inr (h, m))"

definition is_leap :: "nat \<Rightarrow> bool" where
  "is_leap y = (y mod 4 = 0 \<and> (y mod 100 \<noteq> 0 \<or> y mod 400 = 0))"

definition days_in_month :: "nat \<Rightarrow> nat \<Rightarrow> nat" where
  "days_in_month y m =
     (if m = 2 then (if is_leap y then 29 else 28)
      else if m = 4 \<or> m = 6 \<or> m = 9 \<or> m = 11 then 30 else 31)"

text \<open>\<open>strptime(s, "%Y-%m-%d")\<close>: year, month and day; the date must exist (year at least 1).\<close>

definition strptime_Ymd :: "string \<Rightarrow> exn + (nat \<times> nat \<times> nat)" where
  "strptime_Ymd s =
     (case [(y, m, d, r). (y, r1) \<leftarrow> alts_Y s, r2 \<leftarrow> re_lit CHR ''-'' r1, (m, r3) \<leftarrow> alts_m r2,
                          r4 \<leftarrow> re_lit CHR ''-'' r3, (d, r) \<leftarrow> alts_d r4] of
        [] \<Rightarrow> Inl (ValueError ''time data does not match format'')
      | (y, m, d, r) # _ \<Rightarrow>
          if r \<noteq> [] then Inl (ValueError ''unconverted data remains'')
          else if y < 1 then Inl (ValueError ''year is out of range'')
          else if days_in_month y m < d then Inl (ValueError ''day is out of range for month'')
          else Inr (y, m, d))"

text \<open>\<open>_is_valid_date\<close> and \<open>_is_valid_time\<close> of the models: the parse does not raise.\<close>

definition is_valid_date :: "string \<Rightarrow> bool" where
  "is_valid_date date_str = (case strptime_Ymd date_str of Inl _ \<Rightarrow> False | Inr _ \<Rightarrow> True)"

definition is_valid_time :: "string \<Rightarrow> bool" where
  "is_valid_time time_str = (case strptime_HM time_str of Inl _ \<Rightarrow> False | Inr _ \<Rightarrow> True)"

subsection \<open>Email and phone validation\<close>

text \<open>
  \<open>re.match(r'^[a-zA-Z0-9._%+-]+@[a-zA-Z0-9.-]+\.[a-zA-Z]{2,}$', email)\<close>.
  No class contains the at sign, so the local part is everything before the first one; the
  last class contains no dot, so the top-level domain is everything after the last dot.
  \<open>$\<close> also matches just before a newline that ends the string.
\<close>

definition local_chars :: string where
  "local_chars = letters @ digits @ ''._%+-''"

definition domain_chars :: string where
  "domain_chars = letters @ digits @ ''.-''"

definition match_email :: "string \<Rightarrow> bool" where
  "match_email t =
     (let local = takeWhile (\<lambda>c. c \<noteq> CHR ''@'') t;
          rest = dropWhile (\<lambda>c. c \<noteq> CHR ''@'') t
      in case rest of [] \<Rightarrow> False
         | _ # after \<Rightarrow>
             (let tld = rev (takeWhile (\<lambda>c. c \<noteq> CHR ''.'') (rev after));
                  front = dropWhile (\<lambda>c. c \<noteq> CHR ''.'') (rev after)
              in case front of [] \<Rightarrow> False
                 | _ # dom_rev \<Rightarrow>
                     local \<noteq> [] \<and> list_all (\<lambda>c. c \<in> set local_chars) local \<and>
                     dom_rev \<noteq> [] \<and> list_all (\<lambda>c. c \<in> set domain_chars) dom_rev \<and>
                     2 \<le> length tld \<and> list_all (\<lambda>c. c \<in> set letters) tld))"

definition is_valid_email :: "string \<Rightarrow> bool" where
  "is_valid_email email =
     (match_email email \<or> (email \<noteq> [] \<and> last email = CHR 0x0A \<and> match_email (butlast email)))"

text \<open>\<open>_is_valid_phone\<close>: strip the non-digits, then 10 or 11 digits must remain.\<close>

definition is_valid_phone :: "string \<Rightarrow> bool" where
  "is_valid_phone phone = (let digits_only = filter is_digit phone in
     length digits_only = 10 \<or> length digits_only = 11)"

section \<open>Entity models (\<open>data/models.py\<close>)\<close>

text \<open>
  A dataclass is a record; the fields of \<open>Member\<close>, \<open>Event\<close> and \<open>AttendanceRecord\<close> carry
  the prefixes \<open>m_\<close>, \<open>e_\<close> and \<open>a_\<close>, since the three classes share field names.
  A row of the sheet is a list of cells. The constructor of each class runs
  \<open>__post_init__\<close>: it validates, then stamps the timestamps from the clock, whose reading
  \<open>datetime.now().isoformat()\<close> is the parameter \<open>now\<close>.
\<close>

type_synonym row = "string list"

text \<open>\<open>while len(row) < n: row.append("")\<close>\<close>

definition pad :: "nat \<Rightarrow> row \<Rightarrow> row" where
  "pad n row = row @ replicate (n - length row) []"

subsection \<open>Member\<close>

record Member =
  m_member_id :: string
  m_first_name :: string
  m_last_name :: string
  m_email :: string
  m_phone :: string
  m_wix_user_id :: "string option"
  m_role :: string
  m_membership_status :: string
  m_payment_status :: string
  m_join_date :: "string option"
  m_graduation_year :: "string option"
  m_major :: "string option"
  m_emergency_contact :: "string option"
  m_emergency_phone :: "string option"
  m_notes :: "string option"
  m_created_at :: "string option"
  m_updated_at :: "string option"

definition Member_validate :: "Member \<Rightarrow> exn + unit" where
  "Member_validate self =
     (if m_member_id self = [] then Inl (ValueError ''Member ID is required'')
      else if m_first_name self = [] \<or> m_last_name self = []
        then Inl (ValueError ''First name and last name are required'')
      else if \<not> is_valid_email (m_email self) then Inl (ValueError ''Valid email is required'')
      else if \<not> is_valid_phone (m_phone self) then Inl (ValueError ''Valid phone number is required'')
      else if m_role self \<notin> set [''member'', ''exec'']
        then Inl (ValueError (''Role must be 'member' or 'exec'' @ [CHR 0x27]))
      else if m_membership_status self \<notin> set [''active'', ''inactive'', ''suspended'']
        then Inl (ValueError ''Invalid membership status'')
      else if m_payment_status self \<notin> set [''paid'', ''pending'', ''overdue'']
        then Inl (ValueError ''Invalid payment status'')
      else Inr ())"

definition Member_post_init :: "string \<Rightarrow> Member \<Rightarrow> exn + Member" where
  "Member_post_init now self =
     (case Member_validate self of
        Inl e \<Rightarrow> Inl e
      | Inr _ \<Rightarrow>
          Inr (self\<lparr>m_created_at := (if \<not> truthy (m_created_at self) then Some now else m_created_at self),
                    m_updated_at := Some now\<rparr>))"

definition Member_to_sheet_row :: "Member \<Rightarrow> row" where
  "Member_to_sheet_row self =
     [m_member_id self, m_first_name self, m_last_name self, m_email self, m_phone self,
      or_empty (m_wix_user_id self), m_role self, m_membership_status self, m_payment_status self,
      or_empty (m_join_date self), or_empty (m_graduation_year self), or_empty (m_major self),
      or_empty (m_emergency_contact self), or_empty (m_emergency_phone self), or_empty (m_notes self),
      or_empty (m_created_at self), or_empty (m_updated_at self)]"

text \<open>
  \<open>from_sheet_row\<close> pads the row, reads the constructor's arguments off its cells
  (\<open>Member_of_cells\<close>) and calls the constructor, which runs \<open>__post_init__\<close>.
\<close>

definition Member_of_cells :: "row \<Rightarrow> Member" where
  "Member_of_cells row =
     \<lparr>m_member_id = row ! 0, m_first_name = row ! 1, m_last_name = row ! 2, m_email = row ! 3,
      m_phone = row ! 4, m_wix_user_id = cell_or_None (row ! 5),
      m_role = or_default (row ! 6) ''member'',
      m_membership_status = or_default (row ! 7) ''active'',
      m_payment_status = or_default (row ! 8) ''pending'',
      m_join_date = cell_or_None (row ! 9), m_graduation_year = cell_or_None (row ! 10),
      m_major = cell_or_None (row ! 11), m_emergency_contact = cell_or_None (row ! 12),
      m_emergency_phone = cell_or_None (row ! 13), m_notes = cell_or_None (row ! 14),
      m_created_at = cell_or_None (row ! 15), m_updated_at = cell_or_None (row ! 16)\<rparr>"

definition Member_from_sheet_row :: "string \<Rightarrow> row \<Rightarrow> exn + Member" where
  "Member_from_sheet_row now row = Member_post_init now (Member_of_cells (pad 17 row))"


subsection \<open>Event\<close>

record Event =
  e_event_id :: string
  e_event_name :: string
  e_event_type :: string
  e_event_date :: string
  e_start_time :: string
  e_end_time :: string
  e_location :: string
  e_description :: "string option"
  e_is_mandatory :: bool
  e_max_attendees :: "int option"
  e_created_by :: string
  e_status :: string
  e_created_at :: "string option"
  e_updated_at :: "string option"

definition Event_validate :: "Event \<Rightarrow> exn + unit" where
  "Event_validate self =
     (if e_event_id self = [] then Inl (ValueError ''Event ID is required'')
      else if e_event_name self = [] then Inl (ValueError ''Event name is required'')
      else if e_event_type self \<notin> set [''practice'', ''game'', ''meeting'', ''social'']
        then Inl (ValueError ''Invalid event type'')
      else if \<not> is_valid_date (e_event_date self)
        then Inl (ValueError ''Valid event date is required (YYYY-MM-DD)'')
      else if \<not> is_valid_time (e_start_time self) \<or> \<not> is_valid_time (e_end_time self)
        then Inl (ValueError ''Valid start and end times are required (HH:MM)'')
      else if e_status self \<notin> set [''scheduled'', ''cancelled'', ''completed'']
        then Inl (ValueError ''Invalid event status'')
      else Inr ())"

definition Event_post_init :: "string \<Rightarrow> Event \<Rightarrow> exn + Event" where
  "Event_post_init now self =
     (case Event_validate self of
        Inl e \<Rightarrow> Inl e
      | Inr _ \<Rightarrow>
          Inr (self\<lparr>e_created_at := (if \<not> truthy (e_created_at self) then Some now else e_created_at self),
                    e_updated_at := Some now\<rparr>))"

text \<open>\<open>str(self.max_attendees) if self.max_attendees else ""\<close>: \<open>None\<close> and 0 are both false.\<close>

definition max_attendees_cell :: "int option \<Rightarrow> string" where
  "max_attendees_cell x = (case x of None \<Rightarrow> [] | Some n \<Rightarrow> if n \<noteq> 0 then str_int n else [])"

definition Event_to_sheet_row :: "Event \<Rightarrow> row" where
  "Event_to_sheet_row self =
     [e_event_id self, e_event_name self, e_event_type self, e_event_date self,
      e_start_time self, e_end_time self, e_location self, or_empty (e_description self),
      lower (str_bool (e_is_mandatory self)), max_attendees_cell (e_max_attendees self),
      e_created_by self, e_status self, or_empty (e_created_at self), or_empty (e_updated_at self)]"

text \<open>
  The cells read with a conversion: \<open>row[8].lower() == 'true' if row[8] else False\<close> and
  \<open>int(row[9]) if row[9] and row[9].isdigit() else None\<close>.
\<close>

definition is_mandatory_of_cell :: "string \<Rightarrow> bool" where
  "is_mandatory_of_cell c = (if c \<noteq> [] then lower c = ''true'' else False)"

definition max_attendees_of_cell :: "string \<Rightarrow> int option" where
  "max_attendees_of_cell c = (if c \<noteq> [] \<and> isdigit c then Some (int_of_digits c) else None)"

definition Event_of_cells :: "row \<Rightarrow> Event" where
  "Event_of_cells row =
     \<lparr>e_event_id = row ! 0, e_event_name = row ! 1, e_event_type = row ! 2, e_event_date = row ! 3,
      e_start_time = row ! 4, e_end_time = row ! 5, e_location = row ! 6,
      e_description = cell_or_None (row ! 7),
      e_is_mandatory = is_mandatory_of_cell (row ! 8),
      e_max_attendees = max_attendees_of_cell (row ! 9),
      e_created_by = row ! 10,
      e_status = or_default (row ! 11) ''scheduled'',
      e_created_at = cell_or_None (row ! 12), e_updated_at = cell_or_None (row ! 13)\<rparr>"

definition Event_from_sheet_row :: "string \<Rightarrow> row \<Rightarrow> exn + Event" where
  "Event_from_sheet_row now row = Event_post_init now (Event_of_cells (pad 14 row))"


subsection \<open>AttendanceRecord\<close>

record AttendanceRecord =
  a_record_id :: string
  a_event_id :: string
  a_member_id :: string
  a_attendance_status :: string
  a_check_in_time :: "string option"
  a_check_out_time :: "string option"
  a_notes :: "string option"
  a_recorded_by :: string
  a_created_at :: "string option"
  a_updated_at :: "string option"

definition AttendanceRecord_validate :: "AttendanceRecord \<Rightarrow> exn + unit" where
  "AttendanceRecord_validate self =
     (if a_record_id self = [] then Inl (ValueError ''Record ID is required'')
      else if a_event_id self = [] then Inl (ValueError ''Event ID is required'')
      else if a_member_id self = [] then Inl (ValueError ''Member ID is required'')
      else if a_attendance_status self \<notin> set [''present'', ''absent'', ''excused'', ''late'']
        then Inl (ValueError ''Invalid attendance status'')
      else if truthy (a_check_in_time self) \<and> \<not> is_valid_time (the (a_check_in_time self))
        then Inl (ValueError ''Invalid check-in time format (HH:MM)'')
      else if truthy (a_check_out_time self) \<and> \<not> is_valid_time (the (a_check_out_time self))
        then Inl (ValueError ''Invalid check-out time format (HH:MM)'')
      else Inr ())"

definition AttendanceRecord_post_init :: "string \<Rightarrow> AttendanceRecord \<Rightarrow> exn + AttendanceRecord" where
  "AttendanceRecord_post_init now self =
     (case AttendanceRecord_validate self of
        Inl e \<Rightarrow> Inl e
      | Inr _ \<Rightarrow>
          Inr (self\<lparr>a_created_at := (if \<not> truthy (a_created_at self) then Some now else a_created_at self),
                    a_updated_at := Some now\<rparr>))"


definition AttendanceRecord_to_sheet_row :: "AttendanceRecord \<Rightarrow> row" where
  "AttendanceRecord_to_sheet_row self =
     [a_record_id self, a_event_id self, a_member_id self, a_attendance_status self,
      or_empty (a_check_in_time self), or_empty (a_check_out_time self), or_empty (a_notes self),
      a_recorded_by self, or_empty (a_created_at self), or_empty (a_updated_at self)]"

definition AttendanceRecord_of_cells :: "row \<Rightarrow> AttendanceRecord" where
  "AttendanceRecord_of_cells row =
     \<lparr>a_record_id = row ! 0, a_event_id = row ! 1, a_member_id = row ! 2,
      a_attendance_status = row ! 3,
      a_check_in_time = cell_or_None (row ! 4), a_check_out_time = cell_or_None (row ! 5),
      a_notes = cell_or_None (row ! 6), a_recorded_by = row ! 7,
      a_created_at = cell_or_None (row ! 8), a_updated_at = cell_or_None (row ! 9)\<rparr>"

definition AttendanceRecord_from_sheet_row :: "string \<Rightarrow> row \<Rightarrow> exn + AttendanceRecord" where
  "AttendanceRecord_from_sheet_row now row =
     AttendanceRecord_post_init now (AttendanceRecord_of_cells (pad 10 row))"


section \<open>Remote table client: \<open>GoogleSheetsManager._execute_with_retry\<close>\<close>

text \<open>
  A request is the sequence of outcomes of its successive \<open>execute()\<close> calls: call number
  \<open>k\<close> (from 0) either returns a response or raises. The loop runs \<open>attempt\<close> over
  \<open>range(max_retries + 1)\<close> and makes one call per iteration. The run yields what the
  function returns or raises (\<open>Inr None\<close> when the range is empty and the function falls
  off its end), the waits passed to \<open>time.sleep\<close> in order, and the number of
  \<open>execute()\<close> calls made. \<open>time.sleep\<close> raises \<open>ValueError\<close> on a negative wait.
  Waits are exact rationals.
\<close>

type_synonym 'r request = "nat \<Rightarrow> exn + 'r"

type_synonym 'r run = "(exn + 'r option) \<times> rat list \<times> nat"

definition time_sleep :: "rat \<Rightarrow> rat list \<Rightarrow> exn + rat list" where
  "time_sleep wait_time slept =
     (if wait_time < 0 then Inl (ValueError ''sleep length must be non-negative'')
      else Inr (slept @ [wait_time]))"

function retry_loop :: "'r request \<Rightarrow> int \<Rightarrow> rat \<Rightarrow> int \<Rightarrow> rat list \<Rightarrow> 'r run" where
  "retry_loop request max_retries delay attempt slept =
     (if attempt < 0 \<or> max_retries < attempt then (Inr None, slept, nat attempt)
      else case request (nat attempt) of
        Inr response \<Rightarrow> (Inr (Some response), slept, nat attempt + 1)
      | Inl (HttpError status content) \<Rightarrow>
          if attempt = max_retries then (Inl (HttpError status content), slept, nat attempt + 1)
          else if status = 429 \<or> status \<in> set [500, 502, 503, 504] then
            (case time_sleep (delay * 2 ^ nat attempt) slept of
               Inl e \<Rightarrow> (Inl e, slept, nat attempt + 1)
             | Inr slept' \<Rightarrow> retry_loop request max_retries delay (attempt + 1) slept')
          else (Inl (HttpError status content), slept, nat attempt + 1)
      | Inl e \<Rightarrow>
          if attempt = max_retries then (Inl e, slept, nat attempt + 1)
          else (case time_sleep delay slept of
                  Inl e' \<Rightarrow> (Inl e', slept, nat attempt + 1)
                | Inr slept' \<Rightarrow> retry_loop request max_retries delay (attempt + 1) slept'))"
  by pat_completeness auto
termination
  by (relation "measure (\<lambda>(request, max_retries, delay, attempt, slept). nat (max_retries + 1 - attempt))") auto

declare retry_loop.simps [simp del]

definition execute_with_retry :: "'r request \<Rightarrow> int \<Rightarrow> rat \<Rightarrow> 'r run" where
  "execute_with_retry request max_retries delay = retry_loop request max_retries delay 0 []"

text \<open>The defaults of the signature: \<open>max_retries = 3\<close>, \<open>delay = 1.0\<close>.\<close>

definition execute_with_retry_default :: "'r request \<Rightarrow> 'r run" where
  "execute_with_retry_default request = execute_with_retry request 3 1"

section \<open>The backing store\<close>

text \<open>
  The spreadsheet service is outside the repository. A tab is the list of its rows, what a
  \<open>values().get\<close> of the full range returns; each request below succeeds on its first
  execution, so that \<open>_execute_with_retry\<close> hands its response to the caller.
  \<open>append\<close> adds the row after the last one and \<open>update\<close> rewrites row \<open>n\<close>
  (1-indexed); both answer with the number of updated rows. A read of column A returns
  for each row its first cell, or the empty row when that cell is blank.
\<close>

type_synonym sheet = "row list"

definition values_get :: "sheet \<Rightarrow> row list" where
  "values_get sh = sh"

definition values_get_column_A :: "sheet \<Rightarrow> row list" where
  "values_get_column_A sh = map (\<lambda>r. case r of [] \<Rightarrow> [] | c # _ \<Rightarrow> if c = [] then [] else [c]) sh"

definition values_append :: "row \<Rightarrow> sheet \<Rightarrow> nat \<times> sheet" where
  "values_append row_data sh = (1, sh @ [row_data])"

definition values_update :: "nat \<Rightarrow> row \<Rightarrow> sheet \<Rightarrow> nat \<times> sheet" where
  "values_update row_number row_data sh = (1, sh[row_number - 1 := row_data])"

section \<open>Record stores\<close>

text \<open>
  The read-all loop of the three stores: \<open>for i, row in enumerate(values)\<close>, with the
  header test \<open>i == 0 and row[0] == header\<close> outside the inner \<open>try\<close> (so \<open>row[0]\<close> on
  an empty first row raises \<open>IndexError\<close> out of the loop) and the parse inside it.
\<close>

fun scan_rows :: "string \<Rightarrow> (row \<Rightarrow> exn + 'a) \<Rightarrow> nat \<Rightarrow> row list \<Rightarrow> 'a list \<Rightarrow> exn + 'a list" where
  "scan_rows header parse i [] acc = Inr acc"
| "scan_rows header parse i (row # rest) acc =
     (case (if i = 0 then (case row of [] \<Rightarrow> Inl IndexError | c # _ \<Rightarrow> Inr (c = header)) else Inr False) of
        Inl e \<Rightarrow> Inl e
      | Inr True \<Rightarrow> scan_rows header parse (Suc i) rest acc
      | Inr False \<Rightarrow>
          (case parse row of
             Inl e \<Rightarrow> scan_rows header parse (Suc i) rest acc
           | Inr x \<Rightarrow> scan_rows header parse (Suc i) rest (acc @ [x])))"

text \<open>The outer \<open>try\<close> of a read-all returns the empty list on any exception.\<close>

definition read_all :: "string \<Rightarrow> (row \<Rightarrow> exn + 'a) \<Rightarrow> row list \<Rightarrow> 'a list" where
  "read_all header parse values =
     (if values = [] then []
      else case scan_rows header parse 0 values [] of Inl e \<Rightarrow> [] | Inr xs \<Rightarrow> xs)"

text \<open>The entities of the rows that parse, in order: what the loop collects from the rows it reaches.\<close>

fun parsed_rows :: "(row \<Rightarrow> exn + 'a) \<Rightarrow> row list \<Rightarrow> 'a list" where
  "parsed_rows parse [] = []"
| "parsed_rows parse (r # rs) =
     (case parse r of Inl e \<Rightarrow> parsed_rows parse rs | Inr x \<Rightarrow> x # parsed_rows parse rs)"

text \<open>Row discovery: the 1-indexed position of the first row of column A holding the identifier.\<close>

fun find_row :: "string \<Rightarrow> nat \<Rightarrow> row list \<Rightarrow> nat option" where
  "find_row ident i [] = None"
| "find_row ident i (row # rest) =
     (if row \<noteq> [] \<and> 0 < length row \<and> row ! 0 = ident then Some (i + 1)
      else find_row ident (Suc i) rest)"

subsection \<open>\<open>MembersCRUD\<close>\<close>

definition get_all_members :: "string \<Rightarrow> sheet \<Rightarrow> Member list" where
  "get_all_members now sh = read_all ''Member ID'' (Member_from_sheet_row now) (values_get sh)"



subsection \<open>\<open>EventsCRUD\<close>\<close>

definition get_all_events :: "string \<Rightarrow> sheet \<Rightarrow> Event list" where
  "get_all_events now sh = read_all ''Event ID'' (Event_from_sheet_row now) (values_get sh)"







subsection \<open>\<open>AttendanceCRUD\<close>\<close>

definition get_all_attendance :: "string \<Rightarrow> sheet \<Rightarrow> AttendanceRecord list" where
  "get_all_attendance now sh =
     read_all ''Record ID'' (AttendanceRecord_from_sheet_row now) (values_get sh)"

definition get_attendance_record :: "string \<Rightarrow> sheet \<Rightarrow> string \<Rightarrow> string \<Rightarrow> AttendanceRecord option" where
  "get_attendance_record now sh event_id member_id =
     find (\<lambda>record. a_event_id record = event_id \<and> a_member_id record = member_id)
       (get_all_attendance now sh)"


definition find_attendance_row :: "sheet \<Rightarrow> string \<Rightarrow> nat option" where
  "find_attendance_row sh record_id = find_row record_id 0 (values_get_column_A sh)"

definition update_attendance :: "string \<Rightarrow> sheet \<Rightarrow> AttendanceRecord \<Rightarrow> bool \<times> sheet" where
  "update_attendance now sh attendance =
     (case find_attendance_row sh (a_record_id attendance) of
        None \<Rightarrow> (False, sh)
      | Some row_number \<Rightarrow>
          (let attendance' = attendance\<lparr>a_updated_at := Some now\<rparr>;
               (updatedRows, sh') = values_update row_number (AttendanceRecord_to_sheet_row attendance') sh
           in if 0 < updatedRows then (True, sh') else (False, sh')))"

definition record_attendance :: "string \<Rightarrow> sheet \<Rightarrow> AttendanceRecord \<Rightarrow> bool \<times> sheet" where
  "record_attendance now sh attendance =
     (case get_attendance_record now sh (a_event_id attendance) (a_member_id attendance) of
        Some existing_record \<Rightarrow> update_attendance now sh attendance
      | None \<Rightarrow>
          (let row_data = AttendanceRecord_to_sheet_row attendance;
               (updatedRows, sh') = values_append row_data sh
           in if 0 < updatedRows then (True, sh') else (False, sh')))"

text \<open>A sequence of \<open>record_attendance\<close> calls on one tab, the clock fixed.\<close>

fun record_all :: "string \<Rightarrow> sheet \<Rightarrow> AttendanceRecord list \<Rightarrow> sheet" where
  "record_all now sh [] = sh"
| "record_all now sh (a # as) = record_all now (snd (record_attendance now sh a)) as"

section \<open>Derived analytics\<close>












section \<open>Sample data\<close>

text \<open>
  A member, an event and an attendance record after the example block of \<open>models.py\<close>
  (the event on the day and at the hours of the conflict test), as they stand after
  construction at clock reading \<open>2024-03-01T12:00:00\<close>.
\<close>

definition sample_now :: string where
  "sample_now = ''2024-03-01T12:00:00''"

definition sample_member :: Member where
  "sample_member =
     \<lparr>m_member_id = ''MBR_20240301120000'', m_first_name = ''John'', m_last_name = ''Doe'',
      m_email = ''john.doe@berkeley.edu'', m_phone = ''555-123-4567'', m_wix_user_id = None,
      m_role = ''member'', m_membership_status = ''active'', m_payment_status = ''pending'',
      m_join_date = None, m_graduation_year = Some ''2025'', m_major = Some ''Computer Science'',
      m_emergency_contact = None, m_emergency_phone = None, m_notes = None,
      m_created_at = Some sample_now, m_updated_at = Some sample_now\<rparr>"

definition sample_event :: Event where
  "sample_event =
     \<lparr>e_event_id = ''EVT_20240301120000'', e_event_name = ''Weekly Practice'',
      e_event_type = ''practice'', e_event_date = ''2024-03-20'', e_start_time = ''18:00'',
      e_end_time = ''20:00'', e_location = ''Memorial Stadium'', e_description = None,
      e_is_mandatory = True, e_max_attendees = None, e_created_by = ''MBR_001'',
      e_status = ''scheduled'', e_created_at = Some sample_now, e_updated_at = Some sample_now\<rparr>"

definition sample_attendance :: AttendanceRecord where
  "sample_attendance =
     \<lparr>a_record_id = ''ATT_EVT_001_MBR_001_20240301120000'', a_event_id = ''EVT_001'',
      a_member_id = ''MBR_001'', a_attendance_status = ''present'',
      a_check_in_time = Some ''18:05'', a_check_out_time = Some ''19:55'', a_notes = None,
      a_recorded_by = ''MBR_002'', a_created_at = Some sample_now, a_updated_at = Some sample_now\<rparr>"

text \<open>
  Three further attendance records: one for the same event and member as
  \<open>sample_attendance\<close> generated five minutes later, one for another event and member, and
  one for the event and member of \<open>sample_attendance\<close> that carries the record id of the other.
\<close>

definition later_attendance :: AttendanceRecord where
  "later_attendance =
     sample_attendance\<lparr>a_record_id := ''ATT_EVT_001_MBR_001_20240301120500'',
                       a_attendance_status := ''late''\<rparr>"

definition other_attendance :: AttendanceRecord where
  "other_attendance =
     sample_attendance\<lparr>a_record_id := ''ATT_EVT_002_MBR_002_20240301120000'',
                       a_event_id := ''EVT_002'', a_member_id := ''MBR_002''\<rparr>"

definition colliding_attendance :: AttendanceRecord where
  "colliding_attendance =
     sample_attendance\<lparr>a_record_id := ''ATT_EVT_002_MBR_002_20240301120000'',
                       a_attendance_status := ''absent''\<rparr>"




text \<open>
  The mocks of the retry tests: a request that fails twice with a rate-limit response and
  then succeeds, and a request that raises the same exception at every execution.
\<close>

definition fails_twice_then_succeeds :: "'r \<Rightarrow> 'r request" where
  "fails_twice_then_succeeds response k =
     (if k < 2 then Inl (HttpError 429 ''Rate limit exceeded'') else Inr response)"

definition always_fails :: "exn \<Rightarrow> 'r request" where
  "always_fails e k = Inl e"

section \<open>Rows and padding\<close>

lemma length_pad: "n \<le> length (pad n row)"
  by (simp add: pad_def)

lemma pad_id: "n \<le> length row \<Longrightarrow> pad n row = row"
  by (simp add: pad_def)

lemma pad_update: "pad n ((pad n row)[i := c]) = (pad n row)[i := c]"
  by (simp add: pad_id length_pad)

section \<open>Decimal strings, cells and validation\<close>

lemma digit_val_char: "d < 10 \<Longrightarrow> digit_val (digit_char d) = d"
  by (simp add: digit_val_def digit_char_def)

lemma is_digit_char: "d < 10 \<Longrightarrow> is_digit (digit_char d)"
proof -
  have all: "\<forall>d\<in>set [0..<10]. is_digit (digit_char d)"
    by code_simp
  assume "d < 10"
  then have "d \<in> set [0..<10]" by simp
  with all show ?thesis by blast
qed

lemma str_nat_not_Nil: "str_nat n \<noteq> []"
  by (subst str_nat.simps) simp

lemma str_nat_digits: "list_all is_digit (str_nat n)"
proof (induction n rule: str_nat.induct)
  case (1 n)
  show ?case
    by (subst str_nat.simps) (use 1 in \<open>simp add: is_digit_char\<close>)
qed

lemma foldl_digits_str_nat: "foldl (\<lambda>a c. 10 * a + digit_val c) 0 (str_nat n) = n"
proof (induction n rule: str_nat.induct)
  case (1 n)
  show ?case
    by (subst str_nat.simps) (use 1 in \<open>simp add: digit_val_char\<close>)
qed

lemma int_of_digits_str_nat: "int_of_digits (str_nat n) = int n"
  by (simp add: int_of_digits_def foldl_digits_str_nat)

lemma max_attendees_roundtrip:
  assumes "mx = None \<or> (\<exists>n. mx = Some n \<and> 0 < n)"
  shows "max_attendees_of_cell (max_attendees_cell mx) = mx"
  using assms
  by (auto simp: max_attendees_of_cell_def max_attendees_cell_def str_int_def isdigit_def str_nat_not_Nil str_nat_digits
      int_of_digits_str_nat)

lemma lower_str_bool: "lower (str_bool b) = (if b then ''true'' else ''false'')"
proof -
  have "lower (str_bool True) = ''true''" and "lower (str_bool False) = ''false''"
    by code_simp+
  then show ?thesis by (cases b) simp_all
qed

lemma is_mandatory_roundtrip:
  "is_mandatory_of_cell (lower (str_bool b)) = b"
proof -
  have "lower ''true'' = ''true''" and "lower ''false'' = ''false''"
    by code_simp+
  then show ?thesis by (simp add: lower_str_bool is_mandatory_of_cell_def)
qed

lemma cell_or_None_or_empty: "x \<noteq> Some [] \<Longrightarrow> cell_or_None (or_empty x) = x"
  by (cases x) (simp_all add: cell_or_None_def or_empty_def)

lemma Member_validate_Inr:
  "Member_validate m = Inr () \<longleftrightarrow>
     m_member_id m \<noteq> [] \<and> m_first_name m \<noteq> [] \<and> m_last_name m \<noteq> [] \<and>
     is_valid_email (m_email m) \<and> is_valid_phone (m_phone m) \<and>
     m_role m \<in> set [''member'', ''exec''] \<and>
     m_membership_status m \<in> set [''active'', ''inactive'', ''suspended''] \<and>
     m_payment_status m \<in> set [''paid'', ''pending'', ''overdue'']"
  unfolding Member_validate_def by (simp del: set_simps)


lemma Member_enum_not_Nil:
  assumes "Member_validate m = Inr ()"
  shows "m_role m \<noteq> []" and "m_membership_status m \<noteq> []" and "m_payment_status m \<noteq> []"
proof -
  from assms have r: "m_role m \<in> set [''member'', ''exec'']"
    and s: "m_membership_status m \<in> set [''active'', ''inactive'', ''suspended'']"
    and p: "m_payment_status m \<in> set [''paid'', ''pending'', ''overdue'']"
    unfolding Member_validate_Inr by blast+
  from r show "m_role m \<noteq> []" by auto
  from s show "m_membership_status m \<noteq> []" by auto
  from p show "m_payment_status m \<noteq> []" by auto
qed

lemma Member_post_init_Inr:
  "Member_post_init now raw = Inr m \<longleftrightarrow>
     Member_validate raw = Inr () \<and>
     m = raw\<lparr>m_created_at := (if \<not> truthy (m_created_at raw) then Some now else m_created_at raw),
             m_updated_at := Some now\<rparr>"
  by (auto simp: Member_post_init_def split: sum.splits)

lemma Member_post_init_valid:
  assumes "Member_post_init now raw = Inr e"
  shows "Member_validate e = Inr ()"
  using assms unfolding Member_post_init_Inr Member_validate_Inr by simp

lemma Member_post_init_stamps:
  assumes "Member_post_init now raw = Inr e" and "now \<noteq> []"
  shows "truthy (m_created_at e)" and "m_updated_at e = Some now"
  using assms unfolding Member_post_init_Inr by (auto simp: truthy_def)

lemma Member_of_cells_to_sheet_row:
  assumes "Member_validate e = Inr ()"
    and "m_wix_user_id e \<noteq> Some []" and "m_join_date e \<noteq> Some []"
    and "m_graduation_year e \<noteq> Some []" and "m_major e \<noteq> Some []"
    and "m_emergency_contact e \<noteq> Some []" and "m_emergency_phone e \<noteq> Some []"
    and "m_notes e \<noteq> Some []" and "m_created_at e \<noteq> Some []" and "m_updated_at e \<noteq> Some []"
  shows "Member_of_cells (Member_to_sheet_row e) = e"
  using assms(2-) Member_enum_not_Nil [OF assms(1)]
  by (simp add: Member_of_cells_def Member_to_sheet_row_def cell_or_None_or_empty or_default_def)

lemma Member_roundtrip:
  assumes "Member_post_init now raw = Inr e" and "now \<noteq> []"
    and "m_wix_user_id e \<noteq> Some []" and "m_join_date e \<noteq> Some []"
    and "m_graduation_year e \<noteq> Some []" and "m_major e \<noteq> Some []"
    and "m_emergency_contact e \<noteq> Some []" and "m_emergency_phone e \<noteq> Some []"
    and "m_notes e \<noteq> Some []"
  shows "Member_from_sheet_row now (Member_to_sheet_row e) = Inr e"
proof -
  have v: "Member_validate e = Inr ()" by (rule Member_post_init_valid [OF assms(1)])
  have c: "truthy (m_created_at e)" and u: "m_updated_at e = Some now"
    by (rule Member_post_init_stamps [OF assms(1,2)])+
  have c': "m_created_at e \<noteq> Some []" using c by (auto simp: truthy_def)
  have u': "m_updated_at e \<noteq> Some []" using u assms(2) by simp
  have "Member_of_cells (Member_to_sheet_row e) = e"
    by (rule Member_of_cells_to_sheet_row [OF v assms(3-9) c' u'])
  moreover have "pad 17 (Member_to_sheet_row e) = Member_to_sheet_row e"
    by (simp add: pad_def Member_to_sheet_row_def)
  ultimately show ?thesis
    using v c u by (simp add: Member_from_sheet_row_def Member_post_init_def)
qed


lemma Event_validate_Inr:
  "Event_validate e = Inr () \<longleftrightarrow>
     e_event_id e \<noteq> [] \<and> e_event_name e \<noteq> [] \<and>
     e_event_type e \<in> set [''practice'', ''game'', ''meeting'', ''social''] \<and>
     is_valid_date (e_event_date e) \<and> is_valid_time (e_start_time e) \<and> is_valid_time (e_end_time e) \<and>
     e_status e \<in> set [''scheduled'', ''cancelled'', ''completed'']"
  unfolding Event_validate_def by (simp del: set_simps) blast

lemma Event_status_not_Nil:
  assumes "Event_validate e = Inr ()"
  shows "e_status e \<noteq> []"
proof -
  from assms have "e_status e \<in> set [''scheduled'', ''cancelled'', ''completed'']"
    unfolding Event_validate_Inr by blast
  then show ?thesis by auto
qed

lemma Event_post_init_Inr:
  "Event_post_init now raw = Inr e \<longleftrightarrow>
     Event_validate raw = Inr () \<and>
     e = raw\<lparr>e_created_at := (if \<not> truthy (e_created_at raw) then Some now else e_created_at raw),
             e_updated_at := Some now\<rparr>"
  by (auto simp: Event_post_init_def split: sum.splits)

lemma Event_post_init_valid:
  assumes "Event_post_init now raw = Inr e"
  shows "Event_validate e = Inr ()"
  using assms unfolding Event_post_init_Inr Event_validate_Inr by simp

lemma Event_post_init_stamps:
  assumes "Event_post_init now raw = Inr e" and "now \<noteq> []"
  shows "truthy (e_created_at e)" and "e_updated_at e = Some now"
  using assms unfolding Event_post_init_Inr by (auto simp: truthy_def)

lemma Event_of_cells_to_sheet_row:
  assumes "Event_validate e = Inr ()"
    and "e_description e \<noteq> Some []"
    and "e_max_attendees e = None \<or> (\<exists>n. e_max_attendees e = Some n \<and> 0 < n)"
    and "e_created_at e \<noteq> Some []" and "e_updated_at e \<noteq> Some []"
  shows "Event_of_cells (Event_to_sheet_row e) = e"
  using assms(2,4,5) Event_status_not_Nil [OF assms(1)]
  by (simp add: Event_of_cells_def Event_to_sheet_row_def cell_or_None_or_empty or_default_def
      is_mandatory_roundtrip max_attendees_roundtrip [OF assms(3)])

lemma Event_roundtrip:
  assumes "Event_post_init now raw = Inr e" and "now \<noteq> []"
    and "e_description e \<noteq> Some []"
    and "e_max_attendees e = None \<or> (\<exists>n. e_max_attendees e = Some n \<and> 0 < n)"
  shows "Event_from_sheet_row now (Event_to_sheet_row e) = Inr e"
proof -
  have v: "Event_validate e = Inr ()" by (rule Event_post_init_valid [OF assms(1)])
  have c: "truthy (e_created_at e)" and u: "e_updated_at e = Some now"
    by (rule Event_post_init_stamps [OF assms(1,2)])+
  have c': "e_created_at e \<noteq> Some []" using c by (auto simp: truthy_def)
  have u': "e_updated_at e \<noteq> Some []" using u assms(2) by simp
  have "Event_of_cells (Event_to_sheet_row e) = e"
    by (rule Event_of_cells_to_sheet_row [OF v assms(3,4) c' u'])
  moreover have "pad 14 (Event_to_sheet_row e) = Event_to_sheet_row e"
    by (simp add: pad_def Event_to_sheet_row_def)
  ultimately show ?thesis
    using v c u by (simp add: Event_from_sheet_row_def Event_post_init_def)
qed

lemma AttendanceRecord_validate_Inr:
  "AttendanceRecord_validate a = Inr () \<longleftrightarrow>
     a_record_id a \<noteq> [] \<and> a_event_id a \<noteq> [] \<and> a_member_id a \<noteq> [] \<and>
     a_attendance_status a \<in> set [''present'', ''absent'', ''excused'', ''late''] \<and>
     (truthy (a_check_in_time a) \<longrightarrow> is_valid_time (the (a_check_in_time a))) \<and>
     (truthy (a_check_out_time a) \<longrightarrow> is_valid_time (the (a_check_out_time a)))"
  unfolding AttendanceRecord_validate_def by (simp del: set_simps)

lemma AttendanceRecord_post_init_Inr:
  "AttendanceRecord_post_init now raw = Inr a \<longleftrightarrow>
     AttendanceRecord_validate raw = Inr () \<and>
     a = raw\<lparr>a_created_at := (if \<not> truthy (a_created_at raw) then Some now else a_created_at raw),
             a_updated_at := Some now\<rparr>"
  by (auto simp: AttendanceRecord_post_init_def split: sum.splits)

lemma AttendanceRecord_post_init_valid:
  assumes "AttendanceRecord_post_init now raw = Inr a"
  shows "AttendanceRecord_validate a = Inr ()"
  using assms unfolding AttendanceRecord_post_init_Inr AttendanceRecord_validate_Inr by simp

lemma AttendanceRecord_post_init_stamps:
  assumes "AttendanceRecord_post_init now raw = Inr a" and "now \<noteq> []"
  shows "truthy (a_created_at a)" and "a_updated_at a = Some now"
  using assms unfolding AttendanceRecord_post_init_Inr by (auto simp: truthy_def)

lemma AttendanceRecord_of_cells_to_sheet_row:
  assumes "a_check_in_time a \<noteq> Some []" and "a_check_out_time a \<noteq> Some []"
    and "a_notes a \<noteq> Some []" and "a_created_at a \<noteq> Some []" and "a_updated_at a \<noteq> Some []"
  shows "AttendanceRecord_of_cells (AttendanceRecord_to_sheet_row a) = a"
  using assms
  by (simp add: AttendanceRecord_of_cells_def AttendanceRecord_to_sheet_row_def cell_or_None_or_empty)

lemma AttendanceRecord_roundtrip:
  assumes "AttendanceRecord_post_init now raw = Inr a" and "now \<noteq> []"
    and "a_check_in_time a \<noteq> Some []" and "a_check_out_time a \<noteq> Some []"
    and "a_notes a \<noteq> Some []"
  shows "AttendanceRecord_from_sheet_row now (AttendanceRecord_to_sheet_row a) = Inr a"
proof -
  have v: "AttendanceRecord_validate a = Inr ()"
    by (rule AttendanceRecord_post_init_valid [OF assms(1)])
  have c: "truthy (a_created_at a)" and u: "a_updated_at a = Some now"
    by (rule AttendanceRecord_post_init_stamps [OF assms(1,2)])+
  have c': "a_created_at a \<noteq> Some []" using c by (auto simp: truthy_def)
  have u': "a_updated_at a \<noteq> Some []" using u assms(2) by simp
  have "AttendanceRecord_of_cells (AttendanceRecord_to_sheet_row a) = a"
    by (rule AttendanceRecord_of_cells_to_sheet_row [OF assms(3-5) c' u'])
  moreover have "pad 10 (AttendanceRecord_to_sheet_row a) = AttendanceRecord_to_sheet_row a"
    by (simp add: pad_def AttendanceRecord_to_sheet_row_def)
  ultimately show ?thesis
    using v c u by (simp add: AttendanceRecord_from_sheet_row_def AttendanceRecord_post_init_def)
qed

section \<open>Serialization of events\<close>

lemma Event_validate_row_fields:
  "Event_validate e = Inr () \<Longrightarrow>
   Event_validate \<lparr>e_event_id = e_event_id e, e_event_name = e_event_name e, e_event_type = e_event_type e,
      e_event_date = e_event_date e, e_start_time = e_start_time e, e_end_time = e_end_time e,
      e_location = loc, e_description = d, e_is_mandatory = b, e_max_attendees = mx, e_created_by = cb,
      e_status = or_default (e_status e) ''scheduled'', e_created_at = ca, e_updated_at = ua\<rparr> = Inr ()"
  by (auto simp: Event_validate_def or_default_def split: if_splits)

lemma sample_event_valid: "Event_validate (sample_event\<lparr>e_max_attendees := mx\<rparr>) = Inr ()"
  by (simp add: sample_event_def Event_validate_def) code_simp

text \<open>
  C9. An event whose \<open>max_attendees\<close> is 0 serializes its Max Attendees cell as the empty
  string, its row parses to an event with \<open>max_attendees = None\<close>, and the row is the one
  of the same event with \<open>max_attendees = None\<close>: 0 and absent are not told apart.
\<close>

theorem event_zero_max_attendees_not_preserved:
  assumes "Event_validate e = Inr ()" and "e_max_attendees e = Some 0"
  shows "Event_to_sheet_row e ! 9 = [] \<and>
         (\<exists>e'. Event_from_sheet_row now (Event_to_sheet_row e) = Inr e' \<and> e_max_attendees e' = None) \<and>
         Event_to_sheet_row e = Event_to_sheet_row (e\<lparr>e_max_attendees := None\<rparr>)"
proof -
  have cell: "Event_to_sheet_row e ! 9 = []"
    using assms(2) by (simp add: Event_to_sheet_row_def max_attendees_cell_def)
  have same: "Event_to_sheet_row e = Event_to_sheet_row (e\<lparr>e_max_attendees := None\<rparr>)"
    using assms(2) by (simp add: Event_to_sheet_row_def max_attendees_cell_def)
  have parse: "\<exists>e'. Event_from_sheet_row now (Event_to_sheet_row e) = Inr e' \<and> e_max_attendees e' = None"
    using assms Event_validate_row_fields [OF assms(1)]
    by (simp add: Event_from_sheet_row_def Event_of_cells_def Event_to_sheet_row_def pad_def
        Event_post_init_def max_attendees_cell_def max_attendees_of_cell_def)
  from cell parse same show ?thesis by blast
qed

theorem event_zero_max_attendees_not_preserved_witness:
  "Event_validate (sample_event\<lparr>e_max_attendees := Some 0\<rparr>) = Inr () \<and>
   e_max_attendees (sample_event\<lparr>e_max_attendees := Some 0\<rparr>) = Some 0 \<and>
   Event_to_sheet_row (sample_event\<lparr>e_max_attendees := Some 0\<rparr>) ! 9 = [] \<and>
   (\<exists>e'. Event_from_sheet_row sample_now (Event_to_sheet_row (sample_event\<lparr>e_max_attendees := Some 0\<rparr>)) = Inr e'
         \<and> e_max_attendees e' = None)"
proof -
  have v: "Event_validate (sample_event\<lparr>e_max_attendees := Some 0\<rparr>) = Inr ()"
    by (rule sample_event_valid)
  have m: "e_max_attendees (sample_event\<lparr>e_max_attendees := Some 0\<rparr>) = Some 0"
    by simp
  from event_zero_max_attendees_not_preserved [OF v m, of sample_now] v m show ?thesis
    by blast
qed

section \<open>Defaults for empty enum cells\<close>

lemma Member_validate_enum_cells:
  "Member_validate m = Inr () \<Longrightarrow>
     Member_validate (m\<lparr>m_role := ''member''\<rparr>) = Inr () \<and>
     Member_validate (m\<lparr>m_membership_status := ''active''\<rparr>) = Inr () \<and>
     Member_validate (m\<lparr>m_payment_status := ''pending''\<rparr>) = Inr ()"
  by (auto simp: Member_validate_def split: if_splits)

lemma Member_of_cells_blank:
  assumes "17 \<le> length row"
  shows "Member_of_cells (row[6 := []]) = (Member_of_cells row)\<lparr>m_role := ''member''\<rparr>"
    and "Member_of_cells (row[7 := []]) = (Member_of_cells row)\<lparr>m_membership_status := ''active''\<rparr>"
    and "Member_of_cells (row[8 := []]) = (Member_of_cells row)\<lparr>m_payment_status := ''pending''\<rparr>"
  using assms by (simp_all add: Member_of_cells_def or_default_def)

lemma Event_of_cells_blank:
  assumes "14 \<le> length row"
  shows "Event_of_cells (row[11 := []]) = (Event_of_cells row)\<lparr>e_status := ''scheduled''\<rparr>"
  using assms by (simp add: Event_of_cells_def or_default_def)

lemma Event_validate_status_cell:
  "Event_validate e = Inr () \<Longrightarrow> Event_validate (e\<lparr>e_status := ''scheduled''\<rparr>) = Inr ()"
  by (auto simp: Event_validate_def split: if_splits)

text \<open>
  C10. Blanking the role, membership-status or payment-status cell of a member row that
  parses gives a row that parses, with \<open>role = "member"\<close>, \<open>membership_status = "active"\<close>
  or \<open>payment_status = "pending"\<close> in that field; blanking the status cell of an event row
  that parses gives a row that parses with \<open>status = "scheduled"\<close>. An empty enum cell is
  read as its default, not rejected.
\<close>

theorem empty_enum_cells_default:
  "(Member_from_sheet_row now r = Inr m \<longrightarrow>
      Member_from_sheet_row now ((pad 17 r)[6 := []]) = Inr (m\<lparr>m_role := ''member''\<rparr>) \<and>
      Member_from_sheet_row now ((pad 17 r)[7 := []]) = Inr (m\<lparr>m_membership_status := ''active''\<rparr>) \<and>
      Member_from_sheet_row now ((pad 17 r)[8 := []]) = Inr (m\<lparr>m_payment_status := ''pending''\<rparr>)) \<and>
   (Event_from_sheet_row now r' = Inr e \<longrightarrow>
      Event_from_sheet_row now ((pad 14 r')[11 := []]) = Inr (e\<lparr>e_status := ''scheduled''\<rparr>))"
proof -
  have m: "Member_from_sheet_row now ((pad 17 r)[6 := []]) = Inr (m\<lparr>m_role := ''member''\<rparr>) \<and>
      Member_from_sheet_row now ((pad 17 r)[7 := []]) = Inr (m\<lparr>m_membership_status := ''active''\<rparr>) \<and>
      Member_from_sheet_row now ((pad 17 r)[8 := []]) = Inr (m\<lparr>m_payment_status := ''pending''\<rparr>)"
    if "Member_from_sheet_row now r = Inr m"
    using that Member_validate_enum_cells [of "Member_of_cells (pad 17 r)"]
    by (simp add: Member_from_sheet_row_def pad_update Member_of_cells_blank length_pad
        Member_post_init_Inr)
  have e: "Event_from_sheet_row now ((pad 14 r')[11 := []]) = Inr (e\<lparr>e_status := ''scheduled''\<rparr>)"
    if "Event_from_sheet_row now r' = Inr e"
    using that Event_validate_status_cell [of "Event_of_cells (pad 14 r')"]
    by (simp add: Event_from_sheet_row_def pad_update Event_of_cells_blank length_pad
        Event_post_init_Inr)
  from m e show ?thesis by blast
qed

theorem empty_enum_cells_default_witness:
  "Member_from_sheet_row sample_now (Member_to_sheet_row sample_member) = Inr sample_member \<and>
   Member_from_sheet_row sample_now ((pad 17 (Member_to_sheet_row sample_member))[7 := []])
     = Inr (sample_member\<lparr>m_membership_status := ''active''\<rparr>) \<and>
   Event_from_sheet_row sample_now (Event_to_sheet_row sample_event) = Inr sample_event \<and>
   Event_from_sheet_row sample_now ((pad 14 (Event_to_sheet_row sample_event))[11 := []])
     = Inr (sample_event\<lparr>e_status := ''scheduled''\<rparr>)"
proof -
  have m: "Member_from_sheet_row sample_now (Member_to_sheet_row sample_member) = Inr sample_member"
    by code_simp
  have e: "Event_from_sheet_row sample_now (Event_to_sheet_row sample_event) = Inr sample_event"
    by code_simp
  from empty_enum_cells_default
    [of sample_now "Member_to_sheet_row sample_member" sample_member
        "Event_to_sheet_row sample_event" sample_event] m e
  show ?thesis by blast
qed

section \<open>Round trip through a row\<close>

text \<open>
  The claim C2 as stated fails: an optional field holding the empty string is written as
  an empty cell and read back as \<open>None\<close>.
\<close>

theorem roundtrip_empty_optional_counterexample:
  "Member_post_init sample_now (sample_member\<lparr>m_wix_user_id := Some []\<rparr>)
     = Inr (sample_member\<lparr>m_wix_user_id := Some []\<rparr>) \<and>
   Member_from_sheet_row sample_now (Member_to_sheet_row (sample_member\<lparr>m_wix_user_id := Some []\<rparr>))
     = Inr sample_member \<and>
   sample_member \<noteq> sample_member\<lparr>m_wix_user_id := Some []\<rparr>"
proof -
  have a: "Member_post_init sample_now (sample_member\<lparr>m_wix_user_id := Some []\<rparr>)
     = Inr (sample_member\<lparr>m_wix_user_id := Some []\<rparr>)"
    by code_simp
  have b: "Member_from_sheet_row sample_now (Member_to_sheet_row (sample_member\<lparr>m_wix_user_id := Some []\<rparr>))
     = Inr sample_member"
    by code_simp
  have c: "sample_member \<noteq> sample_member\<lparr>m_wix_user_id := Some []\<rparr>"
    by (simp add: sample_member_def)
  from a b c show ?thesis by blast
qed

text \<open>
  C2, amended. A member, event or attendance record constructed at clock reading \<open>now\<close>
  (non-empty, as an ISO timestamp is), whose optional text fields are each absent or
  non-empty and whose \<open>max_attendees\<close> is absent or positive, is reproduced field by
  field by parsing its serialized row at the same clock reading.
\<close>

theorem entity_roundtrip:
  "(Member_post_init now rm = Inr m \<and> now \<noteq> [] \<and>
      m_wix_user_id m \<noteq> Some [] \<and> m_join_date m \<noteq> Some [] \<and> m_graduation_year m \<noteq> Some [] \<and>
      m_major m \<noteq> Some [] \<and> m_emergency_contact m \<noteq> Some [] \<and> m_emergency_phone m \<noteq> Some [] \<and>
      m_notes m \<noteq> Some []
    \<longrightarrow> Member_from_sheet_row now (Member_to_sheet_row m) = Inr m) \<and>
   (Event_post_init now re = Inr e \<and> now \<noteq> [] \<and> e_description e \<noteq> Some [] \<and>
      (e_max_attendees e = None \<or> (\<exists>n. e_max_attendees e = Some n \<and> 0 < n))
    \<longrightarrow> Event_from_sheet_row now (Event_to_sheet_row e) = Inr e) \<and>
   (AttendanceRecord_post_init now ra = Inr a \<and> now \<noteq> [] \<and>
      a_check_in_time a \<noteq> Some [] \<and> a_check_out_time a \<noteq> Some [] \<and> a_notes a \<noteq> Some []
    \<longrightarrow> AttendanceRecord_from_sheet_row now (AttendanceRecord_to_sheet_row a) = Inr a)"
  using Member_roundtrip [of now rm m] Event_roundtrip [of now re e]
    AttendanceRecord_roundtrip [of now ra a]
  by blast

theorem entity_roundtrip_witness:
  "Member_post_init sample_now sample_member = Inr sample_member \<and>
   Member_from_sheet_row sample_now (Member_to_sheet_row sample_member) = Inr sample_member \<and>
   Event_post_init sample_now (sample_event\<lparr>e_max_attendees := Some 25\<rparr>)
     = Inr (sample_event\<lparr>e_max_attendees := Some 25\<rparr>) \<and>
   Event_from_sheet_row sample_now (Event_to_sheet_row (sample_event\<lparr>e_max_attendees := Some 25\<rparr>))
     = Inr (sample_event\<lparr>e_max_attendees := Some 25\<rparr>) \<and>
   AttendanceRecord_post_init sample_now sample_attendance = Inr sample_attendance \<and>
   AttendanceRecord_from_sheet_row sample_now (AttendanceRecord_to_sheet_row sample_attendance)
     = Inr sample_attendance"
proof -
  have n: "sample_now \<noteq> []" by (simp add: sample_now_def)
  have m: "Member_post_init sample_now sample_member = Inr sample_member"
    by code_simp
  have mo: "m_wix_user_id sample_member \<noteq> Some [] \<and> m_join_date sample_member \<noteq> Some [] \<and>
      m_graduation_year sample_member \<noteq> Some [] \<and> m_major sample_member \<noteq> Some [] \<and>
      m_emergency_contact sample_member \<noteq> Some [] \<and> m_emergency_phone sample_member \<noteq> Some [] \<and>
      m_notes sample_member \<noteq> Some []"
    by (simp add: sample_member_def)
  have e: "Event_post_init sample_now (sample_event\<lparr>e_max_attendees := Some 25\<rparr>)
     = Inr (sample_event\<lparr>e_max_attendees := Some 25\<rparr>)"
    by code_simp
  have eo: "e_description (sample_event\<lparr>e_max_attendees := Some 25\<rparr>) \<noteq> Some [] \<and>
      (e_max_attendees (sample_event\<lparr>e_max_attendees := Some 25\<rparr>) = None \<or>
       (\<exists>n. e_max_attendees (sample_event\<lparr>e_max_attendees := Some 25\<rparr>) = Some n \<and> 0 < n))"
    by (simp add: sample_event_def)
  have a: "AttendanceRecord_post_init sample_now sample_attendance = Inr sample_attendance"
    by code_simp
  have ao: "a_check_in_time sample_attendance \<noteq> Some [] \<and> a_check_out_time sample_attendance \<noteq> Some [] \<and>
      a_notes sample_attendance \<noteq> Some []"
    by (simp add: sample_attendance_def)
  from entity_roundtrip
    [of sample_now sample_member sample_member "sample_event\<lparr>e_max_attendees := Some 25\<rparr>"
        "sample_event\<lparr>e_max_attendees := Some 25\<rparr>" sample_attendance sample_attendance]
    n m mo e eo a ao
  show ?thesis by blast
qed

section \<open>Retry with backoff\<close>

lemma time_sleep_nonneg: "0 \<le> w \<Longrightarrow> time_sleep w slept = Inr (slept @ [w])"
  by (simp add: time_sleep_def)

lemma retry_loop_transient_step:
  assumes "0 \<le> delay" and "a < M"
    and "request a = Inl (HttpError s c)" and "s = 429 \<or> s \<in> set [500, 502, 503, 504]"
  shows "retry_loop request (int M) delay (int a) slept
         = retry_loop request (int M) delay (int (Suc a)) (slept @ [delay * 2 ^ a])"
proof -
  have w: "0 \<le> delay * 2 ^ a" using assms(1) by simp
  show ?thesis
    apply (subst retry_loop.simps)
    using assms(2-4) by (auto simp add: time_sleep_nonneg [OF w] add.commute)
qed

lemma retry_loop_success:
  assumes "a \<le> M" and "request a = Inr response"
  shows "retry_loop request (int M) delay (int a) slept = (Inr (Some response), slept, a + 1)"
  by (subst retry_loop.simps) (use assms in simp)

lemma retry_loop_last_error:
  assumes "request M = Inl err"
  shows "retry_loop request (int M) delay (int M) slept = (Inl err, slept, M + 1)"
  by (subst retry_loop.simps) (use assms in \<open>simp split: exn.splits\<close>)

lemma retry_loop_transient_then_success:
  assumes "0 \<le> delay" and "k \<le> M" and "a \<le> k"
    and "\<forall>i. a \<le> i \<and> i < k \<longrightarrow>
           (\<exists>s c. request i = Inl (HttpError s c) \<and> (s = 429 \<or> s \<in> set [500, 502, 503, 504]))"
    and "request k = Inr response"
  shows "retry_loop request (int M) delay (int a) slept
         = (Inr (Some response), slept @ map (\<lambda>i. delay * 2 ^ i) [a..<k], k + 1)"
  using assms(3,4)
proof (induction "k - a" arbitrary: a slept)
  case 0
  then have "a = k" by simp
  then show ?case using retry_loop_success [of k M request response delay slept] assms(2,5) by simp
next
  case (Suc n)
  then have lt: "a < k" by simp
  with Suc.prems obtain s c where e: "request a = Inl (HttpError s c)"
    and t: "s = 429 \<or> s \<in> set [500, 502, 503, 504]" by blast
  have aM: "a < M" using lt assms(2) by simp
  have step: "retry_loop request (int M) delay (int a) slept
         = retry_loop request (int M) delay (int (Suc a)) (slept @ [delay * 2 ^ a])"
    using retry_loop_transient_step [of delay a M request s c slept] assms(1) aM e t by blast
  have ih: "retry_loop request (int M) delay (int (Suc a)) (slept @ [delay * 2 ^ a])
         = (Inr (Some response), (slept @ [delay * 2 ^ a]) @ map (\<lambda>i. delay * 2 ^ i) [Suc a..<k], k + 1)"
    using Suc.hyps(1) [of "Suc a" "slept @ [delay * 2 ^ a]"] Suc.hyps(2) Suc.prems lt by simp
  show ?case using step ih lt by (simp add: upt_conv_Cons)
qed

lemma retry_loop_transient_exhausted:
  assumes "0 \<le> delay" and "a \<le> M"
    and "\<forall>i. a \<le> i \<and> i < M \<longrightarrow>
           (\<exists>s c. request i = Inl (HttpError s c) \<and> (s = 429 \<or> s \<in> set [500, 502, 503, 504]))"
    and "request M = Inl err"
  shows "retry_loop request (int M) delay (int a) slept
         = (Inl err, slept @ map (\<lambda>i. delay * 2 ^ i) [a..<M], M + 1)"
  using assms(2,3)
proof (induction "M - a" arbitrary: a slept)
  case 0
  then have "a = M" by simp
  then show ?case using retry_loop_last_error [of request M err delay slept] assms(4) by simp
next
  case (Suc n)
  then have lt: "a < M" by simp
  with Suc.prems obtain s c where e: "request a = Inl (HttpError s c)"
    and t: "s = 429 \<or> s \<in> set [500, 502, 503, 504]" by blast
  have step: "retry_loop request (int M) delay (int a) slept
         = retry_loop request (int M) delay (int (Suc a)) (slept @ [delay * 2 ^ a])"
    using retry_loop_transient_step [of delay a M request s c slept] assms(1) lt e t by blast
  have ih: "retry_loop request (int M) delay (int (Suc a)) (slept @ [delay * 2 ^ a])
         = (Inl err, (slept @ [delay * 2 ^ a]) @ map (\<lambda>i. delay * 2 ^ i) [Suc a..<M], M + 1)"
    using Suc.hyps(1) [of "Suc a" "slept @ [delay * 2 ^ a]"] Suc.hyps(2) Suc.prems lt by simp
  show ?case using step ih lt by (simp add: upt_conv_Cons)
qed


lemma fails_twice_run:
  "execute_with_retry_default (fails_twice_then_succeeds response) = (Inr (Some response), [1, 2], 3)"
proof -
  have "retry_loop (fails_twice_then_succeeds response) (int 3) 1 (int 0) []
        = (Inr (Some response), [] @ map (\<lambda>i. 1 * 2 ^ i) [0..<2], 2 + 1)"
    by (rule retry_loop_transient_then_success) (simp_all add: fails_twice_then_succeeds_def)
  then show ?thesis
    by (simp add: execute_with_retry_default_def execute_with_retry_def upt_rec [of 0] upt_rec [of 1]
        upt_rec [of "Suc 0"] numeral_2_eq_2)
qed

text \<open>
  C3. With a retry budget \<open>max_retries \<ge> 0\<close> and a delay \<open>\<ge> 0\<close>: a request whose first
  \<open>k \<le> max_retries\<close> executions fail with status 429 or 500/502/503/504 and whose next one
  succeeds is executed \<open>k + 1\<close> times, the waits are \<open>delay * 2 ^ attempt\<close> for
  \<open>attempt = 0 .. k - 1\<close>, and its response is returned unchanged; a request that still
  fails at attempt \<open>max_retries\<close>, after transient failures at every earlier attempt, has
  that last error raised unchanged after the waits for \<open>attempt = 0 .. max_retries - 1\<close>.
  With the defaults, a request that fails twice with a rate-limit response and then
  succeeds is executed three times (retried twice), waits 1 then 2, and returns its response.
\<close>

theorem execute_with_retry_transient:
  assumes "0 \<le> max_retries" and "0 \<le> delay"
  shows "(k \<le> nat max_retries \<and>
          (\<forall>i<k. \<exists>s c. request i = Inl (HttpError s c) \<and> (s = 429 \<or> s \<in> set [500, 502, 503, 504])) \<and>
          request k = Inr response
          \<longrightarrow> execute_with_retry request max_retries delay
                = (Inr (Some response), map (\<lambda>attempt. delay * 2 ^ attempt) [0..<k], k + 1)) \<and>
         ((\<forall>i<nat max_retries. \<exists>s c. request' i = Inl (HttpError s c) \<and> (s = 429 \<or> s \<in> set [500, 502, 503, 504])) \<and>
          request' (nat max_retries) = Inl err
          \<longrightarrow> execute_with_retry request' max_retries delay
                = (Inl err, map (\<lambda>attempt. delay * 2 ^ attempt) [0..<nat max_retries], nat max_retries + 1)) \<and>
         execute_with_retry_default (fails_twice_then_succeeds response')
           = (Inr (Some response'), [1, 2], 3)"
proof -
  have M: "max_retries = int (nat max_retries)" using assms(1) by simp
  have a: "execute_with_retry request max_retries delay
                = (Inr (Some response), map (\<lambda>attempt. delay * 2 ^ attempt) [0..<k], k + 1)"
    if "k \<le> nat max_retries"
      and "\<forall>i<k. \<exists>s c. request i = Inl (HttpError s c) \<and> (s = 429 \<or> s \<in> set [500, 502, 503, 504])"
      and "request k = Inr response"
    using retry_loop_transient_then_success [of delay k "nat max_retries" 0 request response "[]"]
      that assms(2) M
    by (simp add: execute_with_retry_def)
  have b: "execute_with_retry request' max_retries delay
                = (Inl err, map (\<lambda>attempt. delay * 2 ^ attempt) [0..<nat max_retries], nat max_retries + 1)"
    if "\<forall>i<nat max_retries. \<exists>s c. request' i = Inl (HttpError s c) \<and> (s = 429 \<or> s \<in> set [500, 502, 503, 504])"
      and "request' (nat max_retries) = Inl err"
    using retry_loop_transient_exhausted [of delay 0 "nat max_retries" request' err "[]"]
      that assms(2) M
    by (simp add: execute_with_retry_def)
  from a b fails_twice_run [of response'] show ?thesis by blast
qed

theorem execute_with_retry_transient_witness:
  "execute_with_retry (fails_twice_then_succeeds ''ok'') 3 1 = (Inr (Some ''ok''), [1, 2], 3) \<and>
   execute_with_retry (always_fails (HttpError 503 ''Service Unavailable'') :: string request) 3 1
     = (Inl (HttpError 503 ''Service Unavailable''), [1, 2, 4], 4)"
proof -
  have h1: "(0::int) \<le> 3" and h2: "(0::rat) \<le> 1" by simp_all
  have k: "(2::nat) \<le> nat 3" by simp
  have t: "\<forall>i<2. \<exists>s c. fails_twice_then_succeeds ''ok'' i = Inl (HttpError s c)
              \<and> (s = 429 \<or> s \<in> set [500, 502, 503, 504])"
    by (simp add: fails_twice_then_succeeds_def)
  have r: "fails_twice_then_succeeds ''ok'' 2 = Inr ''ok''"
    by (simp add: fails_twice_then_succeeds_def)
  have t': "\<forall>i<nat 3. \<exists>s c. (always_fails (HttpError 503 ''Service Unavailable'') :: string request) i
              = Inl (HttpError s c) \<and> (s = 429 \<or> s \<in> set [500, 502, 503, 504])"
    by (simp add: always_fails_def)
  have r': "(always_fails (HttpError 503 ''Service Unavailable'') :: string request) (nat 3)
              = Inl (HttpError 503 ''Service Unavailable'')"
    by (simp add: always_fails_def)
  have l: "map (\<lambda>attempt. (1::rat) * 2 ^ attempt) [0..<2] = [1, 2]"
    and l': "map (\<lambda>attempt. (1::rat) * 2 ^ attempt) [0..<nat 3] = [1, 2, 4]"
    by code_simp+
  note th = execute_with_retry_transient [OF h1 h2, of 2 "fails_twice_then_succeeds ''ok''" "''ok''"
      "always_fails (HttpError 503 ''Service Unavailable'')" "HttpError 503 ''Service Unavailable''" "''ok''"]
  have A: "execute_with_retry (fails_twice_then_succeeds ''ok'') 3 1
           = (Inr (Some ''ok''), map (\<lambda>attempt. 1 * 2 ^ attempt) [0..<2], 2 + 1)"
    using th k t r by blast
  have B: "execute_with_retry (always_fails (HttpError 503 ''Service Unavailable'') :: string request) 3 1
           = (Inl (HttpError 503 ''Service Unavailable''),
              map (\<lambda>attempt. 1 * 2 ^ attempt) [0..<nat 3], nat 3 + 1)"
    using th t' r' by blast
  from A B l l' show ?thesis by simp
qed

text \<open>
  The claim C4 as stated fails: an exception that is not an \<open>HttpError\<close> (hence neither a
  rate-limit nor a 5xx response) is retried, after a wait of \<open>delay\<close> each time.
\<close>

theorem non_http_error_is_retried_counterexample:
  "execute_with_retry_default (always_fails (Exception ''timed out'') :: string request)
     = (Inl (Exception ''timed out''), [1, 1, 1], 4)"
  by code_simp


text \<open>
  C4, amended. With a retry budget \<open>max_retries \<ge> 0\<close>, an \<open>HttpError\<close> whose status is
  not 429 and not a 5xx status is raised on the first attempt: one execution, no wait.
\<close>

theorem execute_with_retry_permanent_http_error:
  assumes "0 \<le> max_retries"
    and "request 0 = Inl (HttpError status content)"
    and "status \<noteq> 429" and "\<not> (500 \<le> status \<and> status \<le> 599)"
  shows "execute_with_retry request max_retries delay = (Inl (HttpError status content), [], 1)"
  unfolding execute_with_retry_def
  by (subst retry_loop.simps) (use assms in auto)

theorem execute_with_retry_permanent_http_error_witness:
  "execute_with_retry_default (always_fails (HttpError 403 ''The caller does not have permission'') :: string request)
     = (Inl (HttpError 403 ''The caller does not have permission''), [], 1)"
proof -
  have "(0::int) \<le> 3"
    and "(always_fails (HttpError 403 ''The caller does not have permission'') :: string request) 0
       = Inl (HttpError 403 ''The caller does not have permission'')"
    and "(403::int) \<noteq> 429" and "\<not> (500 \<le> (403::int) \<and> (403::int) \<le> 599)"
    by (simp_all add: always_fails_def)
  from execute_with_retry_permanent_http_error
    [of 3 "always_fails (HttpError 403 ''The caller does not have permission'')" 403
        "''The caller does not have permission''" 1] this
  show ?thesis by (simp add: execute_with_retry_default_def)
qed


section \<open>Reading all rows\<close>



lemma scan_rows_Suc:
  "scan_rows header parse (Suc i) rows acc = Inr (acc @ parsed_rows parse rows)"
  by (induction rows arbitrary: i acc) (auto split: sum.splits)

lemma scan_rows_0_Cons:
  "scan_rows header parse 0 ((c # cs) # rest) acc =
     Inr (acc @ parsed_rows parse (if c = header then rest else (c # cs) # rest))"
  by (auto simp: scan_rows_Suc split: sum.splits)


lemma read_all_empty_first_row: "read_all header parse ([] # rest) = []"
  by (simp add: read_all_def)

lemma read_all_Cons:
  "read_all header parse ((c # cs) # rest) =
     parsed_rows parse (if c = header then rest else (c # cs) # rest)"
  by (simp add: read_all_def scan_rows_0_Cons del: scan_rows.simps)






text \<open>
  When the first row returned by the store has a first cell, each read-all returns the
  entities of the rows that parse, in order, leaving out the first row exactly when its
  first cell is the canonical first header; a row that does not parse is left out and
  the rows after it are still read.
\<close>

theorem read_all_first_cell:
  "get_all_members now ((c # cs) # rest)
     = parsed_rows (Member_from_sheet_row now) (if c = ''Member ID'' then rest else (c # cs) # rest) \<and>
   get_all_events now ((c # cs) # rest)
     = parsed_rows (Event_from_sheet_row now) (if c = ''Event ID'' then rest else (c # cs) # rest) \<and>
   get_all_attendance now ((c # cs) # rest)
     = parsed_rows (AttendanceRecord_from_sheet_row now)
         (if c = ''Record ID'' then rest else (c # cs) # rest)"
  unfolding get_all_members_def get_all_events_def get_all_attendance_def values_get_def
  by (simp only: read_all_Cons)

section \<open>Creating members\<close>














section \<open>An empty first row\<close>

text \<open>
  C7. The header test reads \<open>row[0]\<close> of the first row outside the per-row \<open>try\<close>: when
  the first row is empty, the read-all of each store returns no entity at all, although
  the row after it parses (\<open>read_all_first_cell\<close> gives the claimed behaviour for a first
  row that has a first cell).
\<close>

theorem read_all_empty_first_row_aborts:
  "Member_from_sheet_row sample_now (Member_to_sheet_row sample_member) = Inr sample_member \<and>
   get_all_members sample_now [[], Member_to_sheet_row sample_member] = [] \<and>
   Event_from_sheet_row sample_now (Event_to_sheet_row sample_event) = Inr sample_event \<and>
   get_all_events sample_now [[], Event_to_sheet_row sample_event] = [] \<and>
   AttendanceRecord_from_sheet_row sample_now (AttendanceRecord_to_sheet_row sample_attendance)
     = Inr sample_attendance \<and>
   get_all_attendance sample_now [[], AttendanceRecord_to_sheet_row sample_attendance] = []"
proof -
  have "Member_from_sheet_row sample_now (Member_to_sheet_row sample_member) = Inr sample_member"
    and "Event_from_sheet_row sample_now (Event_to_sheet_row sample_event) = Inr sample_event"
    and "AttendanceRecord_from_sheet_row sample_now (AttendanceRecord_to_sheet_row sample_attendance)
     = Inr sample_attendance"
    by code_simp+
  then show ?thesis
    by (simp add: get_all_members_def get_all_events_def get_all_attendance_def values_get_def
        read_all_empty_first_row)
qed

section \<open>Recording attendance for a pair that has a row\<close>

text \<open>
  C1. \<open>record_attendance\<close> for a pair that has a row calls \<open>update_attendance\<close> with the
  new record, which looks the row up by the new record's id: with a fresh id nothing is
  updated and False is returned; with the id of another pair's row that row is
  overwritten, and the pair then has two rows.
\<close>

theorem record_attendance_existing_pair_not_updated:
  "record_attendance ''2024-03-01T12:05:00'' [AttendanceRecord_to_sheet_row sample_attendance]
       later_attendance
     = (False, [AttendanceRecord_to_sheet_row sample_attendance]) \<and>
   record_all sample_now [] [sample_attendance, other_attendance, colliding_attendance]
     = [AttendanceRecord_to_sheet_row sample_attendance,
        AttendanceRecord_to_sheet_row colliding_attendance] \<and>
   length (filter (\<lambda>r. a_event_id r = ''EVT_001'' \<and> a_member_id r = ''MBR_001'')
     (get_all_attendance sample_now
        (record_all sample_now [] [sample_attendance, other_attendance, colliding_attendance]))) = 2"
  by code_simp

section \<open>Event conflicts\<close>











section \<open>Event attendance summary\<close>












end
